theory Spec2Isabelle
  imports Main
begin

section \<open>The weight importer (server/sni/content/yaml.py)\<close>

subsection \<open>Documents and the schema\<close>

text \<open>
  A document as \<open>yaml.safe_load\<close> hands it to the importer: scalars, sequences and
  mappings. A finite float is the pair \<open>(m, e)\<close> standing for \<open>m * 2 ^ e\<close>. A mapping
  is the association list of the loaded \<open>dict\<close> restricted to its string keys, which
  are distinct (a key that is not a string never names a field of the schema and is
  left out). Tagged values (binary,
  timestamps, sets) and non-finite floats are not represented.
\<close>

datatype yaml =
    YNull
  | YBool bool
  | YInt int
  | YFloat int int
  | YStr string
  | YSeq "yaml list"
  | YMap "(string \<times> yaml) list"

text \<open>\<open>class SlugWeight(BaseModel): slug: str; weight: int = Field(ge=0)\<close>\<close>

record SlugWeight =
  slug :: string
  weight :: int

text \<open>
  The validator of a \<open>str\<close> field: of the values above only a string is accepted
  (numbers are not converted to strings).
\<close>

fun str_validator :: "yaml \<Rightarrow> string option" where
  "str_validator (YStr s) = Some s"
| "str_validator _ = None"

text \<open>
  The validator of an \<open>int\<close> field. An integer is taken as it is. What the validation
  library makes of any other value in its default (lax) mode, such as a string of digits
  or a float without fractional part, is the library's business: it is the parameter
  \<open>lax\<close>, and nothing below depends on what it answers.
\<close>

fun int_validator :: "(yaml \<Rightarrow> int option) \<Rightarrow> yaml \<Rightarrow> int option" where
  "int_validator lax (YInt n) = Some n"
| "int_validator lax v = lax v"

text \<open>\<open>Field(ge=0)\<close>: the converted integer must be at least 0.\<close>

definition weight_validator :: "(yaml \<Rightarrow> int option) \<Rightarrow> yaml \<Rightarrow> int option" where
  "weight_validator lax v =
     (case int_validator lax v of
        None \<Rightarrow> None
      | Some n \<Rightarrow> if 0 \<le> n then Some n else None)"

text \<open>
  Validation of one entry against \<open>SlugWeight\<close>: a mapping with both fields (neither has
  a default), each accepted by its validator; other keys are ignored. \<open>None\<close> stands
  for the library's \<open>ValidationError\<close>.
\<close>

fun SlugWeight_validate :: "(yaml \<Rightarrow> int option) \<Rightarrow> yaml \<Rightarrow> SlugWeight option" where
  "SlugWeight_validate lax (YMap kvs) =
     (case (map_of kvs ''slug'', map_of kvs ''weight'') of
        (Some s, Some w) \<Rightarrow>
          (case (str_validator s, weight_validator lax w) of
             (Some s', Some w') \<Rightarrow> Some \<lparr>slug = s', weight = w'\<rparr>
           | _ \<Rightarrow> None)
      | _ \<Rightarrow> None)"
| "SlugWeight_validate lax _ = None"

text \<open>
  \<open>class SlugWeights(IterableRootModel): root: list[SlugWeight]\<close>.

  Modelled from the spec: \<open>IterableRootModel\<close> (sni.shared.schemas) is not among the
  sources; by the spec the validated input is an "ordered sequence" of entries, so
  iterating a validated \<open>SlugWeights\<close> yields the entries of \<open>root\<close> in input order,
  and the validated value is that list.
\<close>

fun SlugWeights :: "(yaml \<Rightarrow> int option) \<Rightarrow> yaml \<Rightarrow> SlugWeight list option" where
  "SlugWeights lax (YSeq xs) = those (map (SlugWeight_validate lax) xs)"
| "SlugWeights lax _ = None"

subsection \<open>The store, the session and the importer\<close>

text \<open>\<open>FileMetadata\<close> (sni.models): one row per tracked file.\<close>

record FileMetadata =
  filename :: string
  hash :: string
  last_modified :: nat

text \<open>
  \<open>YAMLFile\<close> (sni.models), as the importer constructs it: the owning
  \<open>FileMetadata\<close> (given by its file name) and the content type; \<open>yf_class\<close> is the
  \<open>file_model\<close> class it is an instance of.
\<close>

record YAMLFile =
  yf_class :: string
  yf_file_metadata :: string
  yf_content_type :: string

text \<open>
  A row of the importer's \<open>model\<close> table or of its \<open>parent_model\<close> table, with the
  columns the importer reads or writes. \<open>row_parent_id\<close> is the attribute that
  \<open>getattr(item, self.parent_id)\<close> reads.
\<close>

record row =
  row_id :: int
  row_slug :: string
  row_parent_id :: int
  row_weight :: int

text \<open>One parameter set of the bulk update: \<open>{"id": ..., "weight": ...}\<close>.\<close>

record mapping =
  m_id :: int
  m_weight :: int

record db =
  tbl_file_metadata :: "FileMetadata list"
  tbl_yaml_file :: "YAMLFile list"
  tbl_model :: "row list"
  tbl_parent_model :: "row list"

text \<open>
  What the importer does to the outside, in order: the calls on the session, the two
  reads of the file and the lines printed.
\<close>

datatype event =
    Print string
  | SelectFileMetadata string
  | GetFileHash string
  | AddFileMetadata FileMetadata
  | AddYAMLFile YAMLFile
  | Flush
  | Open string
  | SelectModel string
  | Update string "mapping list"
  | Commit
  | Rollback

text \<open>
  The session: the committed store, the store as the open transaction sees it, and the
  events so far.
\<close>

record session =
  committed :: db
  pending :: db
  trace :: "event list"

text \<open>
  The attributes an importer subclass declares. \<open>schema\<close> is \<open>None\<close> when a subclass
  sets it to a false value and otherwise the validation function of the schema class;
  \<open>parent_model\<close> is \<open>None\<close> when the weights are columns of \<open>model\<close> itself.
\<close>

record config =
  content_type :: string
  file_model :: string
  schema :: "(yaml \<Rightarrow> SlugWeight list option) option"
  model :: string
  parent_model :: "string option"
  file_path :: string

text \<open>
  What one call obtains from outside the source file.

  Modelled from the spec: \<open>get_file_hash\<close> (sni.utils.files) is not among the sources;
  by the spec it "computes current content hash of the file" and "hashing a missing
  file is an unhandled fatal condition", so its result is \<open>None\<close> where it raises.

  \<open>safe_load\<close> is \<open>open\<close> followed by \<open>yaml.safe_load\<close>: \<open>Inl\<close> carries the text
  of the exception either of them raised. \<open>commit_error\<close> is the text of the exception
  \<open>db_session.commit()\<close> raises, if it does; \<open>now\<close> is \<open>datetime.now()\<close>.
\<close>

record env =
  get_file_hash :: "string \<Rightarrow> string option"
  safe_load :: "string \<Rightarrow> string + yaml"
  commit_error :: "string option"
  now :: nat

record importer =
  file_updated :: bool
  file_metadata :: "FileMetadata option"
  yaml_file :: "YAMLFile option"
  items :: "row list"
  db_session :: session

datatype error =
    FileHashError
  | ValueError string
  | ValidationError

text \<open>
  A call either raises or returns; the importer it leaves behind is kept in both cases,
  since a Python exception undoes nothing.
\<close>

datatype 'a outcome = Raise error | Return 'a

text \<open>\<open>__init__\<close>, with the class attribute \<open>file_updated = False\<close>.\<close>

definition WeightImporter :: "session \<Rightarrow> importer" where
  "WeightImporter s =
     \<lparr>file_updated = False, file_metadata = None, yaml_file = None, items = [],
      db_session = s\<rparr>"

definition emit :: "event \<Rightarrow> importer \<Rightarrow> importer" where
  "emit e self =
     self\<lparr>db_session := (db_session self)\<lparr>trace := trace (db_session self) @ [e]\<rparr>\<rparr>"

definition write_pending :: "(db \<Rightarrow> db) \<Rightarrow> importer \<Rightarrow> importer" where
  "write_pending f self =
     self\<lparr>db_session := (db_session self)\<lparr>pending := f (pending (db_session self))\<rparr>\<rparr>"

text \<open>Assignment to the attributes of the first object that a query returned.\<close>

fun update_first :: "('a \<Rightarrow> bool) \<Rightarrow> ('a \<Rightarrow> 'a) \<Rightarrow> 'a list \<Rightarrow> 'a list" where
  "update_first P f [] = []"
| "update_first P f (x # xs) = (if P x then f x # xs else x # update_first P f xs)"

subsection \<open>handle_file_metadata\<close>

text \<open>
  The query sees the store of the transaction. \<open>self.file_metadata.yaml_file\<close> is, for
  the record just created, the file just created with it and, for a record found, the
  \<open>YAMLFile\<close> that names it as its owner.
\<close>

definition handle_file_metadata ::
  "config \<Rightarrow> env \<Rightarrow> string \<Rightarrow> bool \<Rightarrow> importer \<Rightarrow> unit outcome \<times> importer" where
  "handle_file_metadata cfg e path force self =
     (let self1 = emit (SelectFileMetadata path) self;
          existing_metadata =
            find (\<lambda>m. filename m = path) (tbl_file_metadata (pending (db_session self1)));
          self2 = emit (GetFileHash path) self1
      in case get_file_hash e path of
           None \<Rightarrow> (Raise FileHashError, self2)
         | Some current_hash \<Rightarrow>
             (let current_last_modified = now e
              in case existing_metadata of
                   Some md \<Rightarrow>
                     (let self3 =
                        (if hash md \<noteq> current_hash \<or> force then
                           (let md' = md\<lparr>hash := current_hash,
                                         last_modified := current_last_modified\<rparr>
                            in (write_pending
                                  (\<lambda>d. d\<lparr>tbl_file_metadata :=
                                            update_first (\<lambda>m. filename m = path) (\<lambda>_. md')
                                              (tbl_file_metadata d)\<rparr>)
                                  self2)
                               \<lparr>file_updated := True, file_metadata := Some md'\<rparr>)
                         else self2\<lparr>file_metadata := Some md\<rparr>)
                      in (Return (),
                          self3\<lparr>yaml_file :=
                                  find (\<lambda>y. yf_file_metadata y = path)
                                    (tbl_yaml_file (pending (db_session self3)))\<rparr>))
                 | None \<Rightarrow>
                     (let md = \<lparr>filename = path, hash = current_hash,
                                last_modified = current_last_modified\<rparr>;
                          self3 = emit (AddFileMetadata md)
                                    (write_pending
                                       (\<lambda>d. d\<lparr>tbl_file_metadata := tbl_file_metadata d @ [md]\<rparr>)
                                       self2);
                          new_file = \<lparr>yf_class = file_model cfg, yf_file_metadata = path,
                                      yf_content_type = content_type cfg\<rparr>;
                          self4 = emit (AddYAMLFile new_file)
                                    (write_pending
                                       (\<lambda>d. d\<lparr>tbl_yaml_file := tbl_yaml_file d @ [new_file]\<rparr>)
                                       self3);
                          self5 = (emit Flush self4)
                                    \<lparr>file_updated := True, file_metadata := Some md\<rparr>
                      in (Return (), self5\<lparr>yaml_file := Some new_file\<rparr>))))"

subsection \<open>load_yaml_data\<close>

text \<open>The \<open>try\<close> block of \<open>load_yaml_data\<close>: every exception becomes a line and \<open>[]\<close>.\<close>

definition read_yaml :: "env \<Rightarrow> string \<Rightarrow> importer \<Rightarrow> yaml \<times> importer" where
  "read_yaml e path self =
     (let self1 = emit (Open path) self
      in case safe_load e path of
           Inr data \<Rightarrow> (data, self1)
         | Inl msg \<Rightarrow> (YSeq [], emit (Print (''Error loading YAML data: '' @ msg)) self1))"

definition load_yaml_data ::
  "config \<Rightarrow> env \<Rightarrow> string \<Rightarrow> bool \<Rightarrow> importer \<Rightarrow> yaml outcome \<times> importer" where
  "load_yaml_data cfg e path force self =
     (case handle_file_metadata cfg e path force self of
        (Raise err, self1) \<Rightarrow> (Raise err, self1)
      | (Return _, self1) \<Rightarrow>
          (case read_yaml e path self1 of (data, self2) \<Rightarrow> (Return data, self2)))"

subsection \<open>process_data\<close>

text \<open>The loop of \<open>process_data\<close>: one parameter set per item, in the order of the items.\<close>

definition mappings_of :: "config \<Rightarrow> row list \<Rightarrow> SlugWeight list \<Rightarrow> mapping list" where
  "mappings_of cfg its validated_data =
     map (\<lambda>item.
            let matching_data = find (\<lambda>data. slug data = row_slug item) validated_data;
                w = (case matching_data of Some data \<Rightarrow> weight data | None \<Rightarrow> 0)
            in case parent_model cfg of
                 Some _ \<Rightarrow> \<lparr>m_id = row_parent_id item, m_weight = w\<rparr>
               | None \<Rightarrow> \<lparr>m_id = row_id item, m_weight = w\<rparr>)
         its"

text \<open>
  The bulk update by primary key: one \<open>UPDATE ... SET weight = ? WHERE id = ?\<close> per
  parameter set, in order.
\<close>

fun bulk_update :: "mapping list \<Rightarrow> row list \<Rightarrow> row list" where
  "bulk_update [] rows = rows"
| "bulk_update (m # ms) rows =
     bulk_update ms
       (map (\<lambda>r. if row_id r = m_id m then r\<lparr>row_weight := m_weight m\<rparr> else r) rows)"

definition process_data :: "config \<Rightarrow> row list \<Rightarrow> SlugWeight list \<Rightarrow> importer \<Rightarrow> importer" where
  "process_data cfg its validated_data self =
     (let mappings = mappings_of cfg its validated_data
      in case parent_model cfg of
           Some p \<Rightarrow>
             emit (Update p mappings)
               (write_pending
                  (\<lambda>d. d\<lparr>tbl_parent_model := bulk_update mappings (tbl_parent_model d)\<rparr>) self)
         | None \<Rightarrow>
             emit (Update (model cfg) mappings)
               (write_pending (\<lambda>d. d\<lparr>tbl_model := bulk_update mappings (tbl_model d)\<rparr>) self))"

subsection \<open>validate_data, commit_changes, import_data\<close>

text \<open>
  The text the library puts after \<open>Validation error: \<close> is not modelled.
\<close>

definition validate_data ::
  "config \<Rightarrow> yaml \<Rightarrow> importer \<Rightarrow> SlugWeight list outcome \<times> importer" where
  "validate_data cfg data self =
     (case schema cfg of
        None \<Rightarrow> (Raise (ValueError ''Pydantic schema not defined in subclass''), self)
      | Some model_validate \<Rightarrow>
          (case model_validate data of
             Some validated \<Rightarrow> (Return validated, self)
           | None \<Rightarrow> (Raise ValidationError, emit (Print ''Validation error: '') self)))"

definition commit_changes :: "env \<Rightarrow> importer \<Rightarrow> importer" where
  "commit_changes e self =
     (let self1 = emit Commit self
      in case commit_error e of
           None \<Rightarrow>
             self1\<lparr>db_session := (db_session self1)\<lparr>committed := pending (db_session self1)\<rparr>\<rparr>
         | Some msg \<Rightarrow>
             (let self2 = emit (Print (''Error committing changes to the database: '' @ msg)) self1;
                  self3 = emit Rollback self2
              in self3\<lparr>db_session :=
                         (db_session self3)\<lparr>pending := committed (db_session self3)\<rparr>\<rparr>))"

definition import_data :: "config \<Rightarrow> env \<Rightarrow> bool \<Rightarrow> importer \<Rightarrow> unit outcome \<times> importer" where
  "import_data cfg e force self =
     (let self0 = emit (Print (''Importing weights for '' @ model cfg @ ''...'')) self
      in case load_yaml_data cfg e (file_path cfg) force self0 of
           (Raise err, self1) \<Rightarrow> (Raise err, self1)
         | (Return yaml_data, self1) \<Rightarrow>
             if file_updated self1 \<or> force then
               (let self2 = (emit (SelectModel (model cfg)) self1)
                              \<lparr>items := remdups (tbl_model (pending (db_session self1)))\<rparr>
                in case validate_data cfg yaml_data self2 of
                     (Raise err, self3) \<Rightarrow> (Raise err, self3)
                   | (Return validated_data, self3) \<Rightarrow>
                       (let self4 = process_data cfg (items self3) validated_data self3;
                            self5 = commit_changes e self4
                        in (Return (), emit (Print ''DONE'') self5)))
             else (Return (), emit (Print ''DONE'') self1))"

subsection \<open>run_weight_importer\<close>

definition run_weight_importer ::
  "config \<Rightarrow> env \<Rightarrow> session \<Rightarrow> bool \<Rightarrow> bool list \<Rightarrow> bool outcome \<times> session" where
  "run_weight_importer cfg e s force force_conditions =
     (case import_data cfg e (force \<or> list_ex (\<lambda>c. c) force_conditions) (WeightImporter s) of
        (Raise err, imp) \<Rightarrow> (Raise err, db_session imp)
      | (Return _, imp) \<Rightarrow> (Return (file_updated imp), db_session imp))"

subsection \<open>Vocabulary of the statements\<close>

text \<open>
  Shorthands for terms of the model that the statements below repeat: each is an
  abbreviation, so a statement that uses one is a statement about the functions above.
  \<open>existing\<close> is the query at the head of \<open>handle_file_metadata\<close>; \<open>changed\<close> says
  that it finds no record, or one whose stored hash is not the current hash;
  \<open>reconciled\<close> is the store after \<open>handle_file_metadata\<close> and \<open>written\<close> the store
  after the bulk update; the remaining ones are the events of the single steps.
\<close>

abbreviation banner :: "config \<Rightarrow> event" where
  "banner cfg \<equiv> Print (''Importing weights for '' @ model cfg @ ''...'')"

abbreviation existing :: "config \<Rightarrow> session \<Rightarrow> FileMetadata option" where
  "existing cfg s \<equiv> find (\<lambda>m. filename m = file_path cfg) (tbl_file_metadata (pending s))"

abbreviation changed :: "config \<Rightarrow> env \<Rightarrow> session \<Rightarrow> bool" where
  "changed cfg e s \<equiv>
     (case existing cfg s of
        None \<Rightarrow> True
      | Some md \<Rightarrow> Some (hash md) \<noteq> get_file_hash e (file_path cfg))"

abbreviation reconcile_events :: "config \<Rightarrow> env \<Rightarrow> session \<Rightarrow> event list" where
  "reconcile_events cfg e s \<equiv>
     [SelectFileMetadata (file_path cfg), GetFileHash (file_path cfg)] @
     (case (existing cfg s, get_file_hash e (file_path cfg)) of
        (None, Some h) \<Rightarrow>
          [AddFileMetadata \<lparr>filename = file_path cfg, hash = h, last_modified = now e\<rparr>,
           AddYAMLFile \<lparr>yf_class = file_model cfg, yf_file_metadata = file_path cfg,
                        yf_content_type = content_type cfg\<rparr>,
           Flush]
      | _ \<Rightarrow> [])"

abbreviation load_events :: "config \<Rightarrow> env \<Rightarrow> event list" where
  "load_events cfg e \<equiv>
     Open (file_path cfg) #
     (case safe_load e (file_path cfg) of
        Inl msg \<Rightarrow> [Print (''Error loading YAML data: '' @ msg)]
      | Inr _ \<Rightarrow> [])"

abbreviation loaded :: "config \<Rightarrow> env \<Rightarrow> yaml" where
  "loaded cfg e \<equiv> (case safe_load e (file_path cfg) of Inr data \<Rightarrow> data | Inl _ \<Rightarrow> YSeq [])"

abbreviation commit_events :: "env \<Rightarrow> event list" where
  "commit_events e \<equiv>
     Commit #
     (case commit_error e of
        None \<Rightarrow> []
      | Some msg \<Rightarrow> [Print (''Error committing changes to the database: '' @ msg), Rollback])"

abbreviation update_class :: "config \<Rightarrow> string" where
  "update_class cfg \<equiv> (case parent_model cfg of Some p \<Rightarrow> p | None \<Rightarrow> model cfg)"

abbreviation reconciled :: "config \<Rightarrow> env \<Rightarrow> bool \<Rightarrow> db \<Rightarrow> db" where
  "reconciled cfg e force d \<equiv>
     (case get_file_hash e (file_path cfg) of
        None \<Rightarrow> d
      | Some h \<Rightarrow>
          (case find (\<lambda>m. filename m = file_path cfg) (tbl_file_metadata d) of
             None \<Rightarrow>
               d\<lparr>tbl_file_metadata := tbl_file_metadata d @
                     [\<lparr>filename = file_path cfg, hash = h, last_modified = now e\<rparr>],
                 tbl_yaml_file := tbl_yaml_file d @
                     [\<lparr>yf_class = file_model cfg, yf_file_metadata = file_path cfg,
                       yf_content_type = content_type cfg\<rparr>]\<rparr>
           | Some md \<Rightarrow>
               if hash md \<noteq> h \<or> force then
                 d\<lparr>tbl_file_metadata :=
                     update_first (\<lambda>m. filename m = file_path cfg)
                       (\<lambda>_. md\<lparr>hash := h, last_modified := now e\<rparr>) (tbl_file_metadata d)\<rparr>
               else d))"

abbreviation written :: "config \<Rightarrow> row list \<Rightarrow> SlugWeight list \<Rightarrow> db \<Rightarrow> db" where
  "written cfg its validated_data d \<equiv>
     (case parent_model cfg of
        Some p \<Rightarrow>
          d\<lparr>tbl_parent_model :=
              bulk_update (mappings_of cfg its validated_data) (tbl_parent_model d)\<rparr>
      | None \<Rightarrow>
          d\<lparr>tbl_model := bulk_update (mappings_of cfg its validated_data) (tbl_model d)\<rparr>)"

subsection \<open>Concrete inputs\<close>

text \<open>
  Three rows \<open>a\<close>, \<open>b\<close>, \<open>c\<close> of weight 9, a document that gives \<open>a\<close> the weight
  5 and \<open>b\<close> the weight 3, an importer without parent model, a session that has
  never seen the file, and an environment in which every step succeeds.
\<close>

definition ex_rows :: "row list" where
  "ex_rows =
     [\<lparr>row_id = 1, row_slug = ''a'', row_parent_id = 10, row_weight = 9\<rparr>,
      \<lparr>row_id = 2, row_slug = ''b'', row_parent_id = 10, row_weight = 9\<rparr>,
      \<lparr>row_id = 3, row_slug = ''c'', row_parent_id = 11, row_weight = 9\<rparr>]"

definition ex_doc :: yaml where
  "ex_doc = YSeq [YMap [(''slug'', YStr ''a''), (''weight'', YInt 5)],
                  YMap [(''slug'', YStr ''b''), (''weight'', YInt 3)]]"

definition ex_cfg :: config where
  "ex_cfg = \<lparr>content_type = ''weights'', file_model = ''WeightFile'',
     schema = Some (SlugWeights (\<lambda>_. None)), model = ''Item'', parent_model = None,
     file_path = ''weights.yaml''\<rparr>"

definition ex_db :: db where
  "ex_db = \<lparr>tbl_file_metadata = [], tbl_yaml_file = [], tbl_model = ex_rows,
            tbl_parent_model = []\<rparr>"

definition ex_session :: session where
  "ex_session = \<lparr>committed = ex_db, pending = ex_db, trace = []\<rparr>"

definition ex_env :: env where
  "ex_env = \<lparr>get_file_hash = (\<lambda>_. Some ''h1''), safe_load = (\<lambda>_. Inr ex_doc),
             commit_error = None, now = 7\<rparr>"

text \<open>
  The session after that document was imported once at time 7: the fingerprint \<open>h1\<close>
  is stored (the rows are kept at weight 9 here, so that a later write shows).
\<close>

definition ex_tracked :: session where
  "ex_tracked =
     \<lparr>committed =
        ex_db\<lparr>tbl_file_metadata :=
                 [\<lparr>filename = ''weights.yaml'', hash = ''h1'', last_modified = 7\<rparr>],
              tbl_yaml_file :=
                 [\<lparr>yf_class = ''WeightFile'', yf_file_metadata = ''weights.yaml'',
                   yf_content_type = ''weights''\<rparr>]\<rparr>,
      pending =
        ex_db\<lparr>tbl_file_metadata :=
                 [\<lparr>filename = ''weights.yaml'', hash = ''h1'', last_modified = 7\<rparr>],
              tbl_yaml_file :=
                 [\<lparr>yf_class = ''WeightFile'', yf_file_metadata = ''weights.yaml'',
                   yf_content_type = ''weights''\<rparr>]\<rparr>,
      trace = []\<rparr>"

section \<open>Properties\<close>

subsection \<open>emit and write_pending\<close>

lemma emit_simps:
  "file_updated (emit ev self) = file_updated self"
  "file_metadata (emit ev self) = file_metadata self"
  "yaml_file (emit ev self) = yaml_file self"
  "items (emit ev self) = items self"
  "committed (db_session (emit ev self)) = committed (db_session self)"
  "pending (db_session (emit ev self)) = pending (db_session self)"
  "trace (db_session (emit ev self)) = trace (db_session self) @ [ev]"
  by (simp_all add: emit_def)

lemma write_pending_simps:
  "file_updated (write_pending f self) = file_updated self"
  "items (write_pending f self) = items self"
  "committed (db_session (write_pending f self)) = committed (db_session self)"
  "pending (db_session (write_pending f self)) = f (pending (db_session self))"
  "trace (db_session (write_pending f self)) = trace (db_session self)"
  by (simp_all add: write_pending_def)

subsection \<open>read_yaml\<close>

lemma read_yaml_fst:
  "fst (read_yaml e path self) = (case safe_load e path of Inr data \<Rightarrow> data | Inl _ \<Rightarrow> YSeq [])"
  by (simp add: read_yaml_def Let_def split: sum.splits)

lemma read_yaml_snd:
  "file_updated (snd (read_yaml e path self)) = file_updated self"
  "committed (db_session (snd (read_yaml e path self))) = committed (db_session self)"
  "pending (db_session (snd (read_yaml e path self))) = pending (db_session self)"
  "trace (db_session (snd (read_yaml e path self))) =
     trace (db_session self) @ Open path #
       (case safe_load e path of
          Inl msg \<Rightarrow> [Print (''Error loading YAML data: '' @ msg)] | Inr _ \<Rightarrow> [])"
  by (simp_all add: read_yaml_def Let_def emit_simps split: sum.splits)

subsection \<open>handle_file_metadata\<close>

lemma hfm_raise:
  "get_file_hash e path = None \<Longrightarrow>
   handle_file_metadata cfg e path force self =
     (Raise FileHashError, emit (GetFileHash path) (emit (SelectFileMetadata path) self))"
  by (simp add: handle_file_metadata_def Let_def)

lemma hfm_fst:
  "get_file_hash e path = Some h \<Longrightarrow> fst (handle_file_metadata cfg e path force self) = Return ()"
  by (simp add: handle_file_metadata_def Let_def split: option.splits)

lemma hfm_file_updated:
  "get_file_hash e path = Some h \<Longrightarrow>
   file_updated (snd (handle_file_metadata cfg e path force self)) =
     (case find (\<lambda>m. filename m = path) (tbl_file_metadata (pending (db_session self))) of
        None \<Rightarrow> True
      | Some md \<Rightarrow> hash md \<noteq> h \<or> force \<or> file_updated self)"
  by (auto simp add: handle_file_metadata_def Let_def emit_simps write_pending_simps split: option.splits)

lemma hfm_committed:
  "committed (db_session (snd (handle_file_metadata cfg e path force self))) = committed (db_session self)"
  by (simp add: handle_file_metadata_def Let_def emit_simps write_pending_simps split: option.splits)

lemma hfm_rows:
  "tbl_model (pending (db_session (snd (handle_file_metadata cfg e path force self)))) =
     tbl_model (pending (db_session self))"
  "tbl_parent_model (pending (db_session (snd (handle_file_metadata cfg e path force self)))) =
     tbl_parent_model (pending (db_session self))"
  by (simp_all add: handle_file_metadata_def Let_def emit_simps write_pending_simps split: option.splits)

lemma hfm_tbl_file_metadata:
  "get_file_hash e path = Some h \<Longrightarrow>
   tbl_file_metadata (pending (db_session (snd (handle_file_metadata cfg e path force self)))) =
     (case find (\<lambda>m. filename m = path) (tbl_file_metadata (pending (db_session self))) of
        None \<Rightarrow> tbl_file_metadata (pending (db_session self)) @
                  [\<lparr>filename = path, hash = h, last_modified = now e\<rparr>]
      | Some md \<Rightarrow>
          if hash md \<noteq> h \<or> force then
            update_first (\<lambda>m. filename m = path) (\<lambda>_. md\<lparr>hash := h, last_modified := now e\<rparr>)
              (tbl_file_metadata (pending (db_session self)))
          else tbl_file_metadata (pending (db_session self)))"
  by (simp add: handle_file_metadata_def Let_def emit_simps write_pending_simps split: option.splits)

lemma hfm_tbl_yaml_file:
  "get_file_hash e path = Some h \<Longrightarrow>
   tbl_yaml_file (pending (db_session (snd (handle_file_metadata cfg e path force self)))) =
     (case find (\<lambda>m. filename m = path) (tbl_file_metadata (pending (db_session self))) of
        None \<Rightarrow> tbl_yaml_file (pending (db_session self)) @
                  [\<lparr>yf_class = file_model cfg, yf_file_metadata = path,
                    yf_content_type = content_type cfg\<rparr>]
      | Some md \<Rightarrow> tbl_yaml_file (pending (db_session self)))"
  by (simp add: handle_file_metadata_def Let_def emit_simps write_pending_simps split: option.splits)

lemma hfm_trace:
  "get_file_hash e path = Some h \<Longrightarrow>
   trace (db_session (snd (handle_file_metadata cfg e path force self))) =
     trace (db_session self) @ [SelectFileMetadata path, GetFileHash path] @
     (case find (\<lambda>m. filename m = path) (tbl_file_metadata (pending (db_session self))) of
        None \<Rightarrow> [AddFileMetadata \<lparr>filename = path, hash = h, last_modified = now e\<rparr>,
                  AddYAMLFile \<lparr>yf_class = file_model cfg, yf_file_metadata = path,
                    yf_content_type = content_type cfg\<rparr>,
                  Flush]
      | Some md \<Rightarrow> [])"
  by (simp add: handle_file_metadata_def Let_def emit_simps write_pending_simps split: option.splits)

subsection \<open>validate_data, process_data, commit_changes\<close>

lemma validate_data_snd:
  "file_updated (snd (validate_data cfg data self)) = file_updated self"
  "committed (db_session (snd (validate_data cfg data self))) = committed (db_session self)"
  "pending (db_session (snd (validate_data cfg data self))) = pending (db_session self)"
  by (simp_all add: validate_data_def emit_simps split: option.splits)

lemma process_data_simps:
  "file_updated (process_data cfg its vd self) = file_updated self"
  "committed (db_session (process_data cfg its vd self)) = committed (db_session self)"
  "tbl_file_metadata (pending (db_session (process_data cfg its vd self))) =
     tbl_file_metadata (pending (db_session self))"
  "tbl_yaml_file (pending (db_session (process_data cfg its vd self))) =
     tbl_yaml_file (pending (db_session self))"
  "trace (db_session (process_data cfg its vd self)) =
     trace (db_session self) @
       [Update (case parent_model cfg of Some p \<Rightarrow> p | None \<Rightarrow> model cfg)
          (mappings_of cfg its vd)]"
  by (simp_all add: process_data_def Let_def emit_simps write_pending_simps split: option.splits)

lemma process_data_pending:
  "pending (db_session (process_data cfg its vd self)) =
     (case parent_model cfg of
        Some p \<Rightarrow> (pending (db_session self))
                   \<lparr>tbl_parent_model :=
                      bulk_update (mappings_of cfg its vd) (tbl_parent_model (pending (db_session self)))\<rparr>
      | None \<Rightarrow> (pending (db_session self))
                   \<lparr>tbl_model :=
                      bulk_update (mappings_of cfg its vd) (tbl_model (pending (db_session self)))\<rparr>)"
  by (simp add: process_data_def Let_def emit_simps write_pending_simps split: option.splits)

lemma commit_changes_simps:
  "file_updated (commit_changes e self) = file_updated self"
  "committed (db_session (commit_changes e self)) =
     (case commit_error e of None \<Rightarrow> pending (db_session self) | Some _ \<Rightarrow> committed (db_session self))"
  "pending (db_session (commit_changes e self)) =
     (case commit_error e of None \<Rightarrow> pending (db_session self) | Some _ \<Rightarrow> committed (db_session self))"
  "trace (db_session (commit_changes e self)) =
     trace (db_session self) @ Commit #
       (case commit_error e of
          None \<Rightarrow> []
        | Some msg \<Rightarrow> [Print (''Error committing changes to the database: '' @ msg), Rollback])"
  by (simp_all add: commit_changes_def Let_def emit_simps split: option.splits)

lemma import_data_raise:
  "get_file_hash e (file_path cfg) = None \<Longrightarrow>
   import_data cfg e force self =
     (Raise FileHashError,
      emit (GetFileHash (file_path cfg)) (emit (SelectFileMetadata (file_path cfg))
        (emit (Print (''Importing weights for '' @ model cfg @ ''...'')) self)))"
  by (simp add: import_data_def load_yaml_data_def hfm_raise Let_def)

lemma import_data_staged:
  assumes "get_file_hash e (file_path cfg) = Some h"
  shows "import_data cfg e force self =
     (let self1 = snd (handle_file_metadata cfg e (file_path cfg) force
                    (emit (Print (''Importing weights for '' @ model cfg @ ''...'')) self));
          yaml_data = fst (read_yaml e (file_path cfg) self1);
          self2 = snd (read_yaml e (file_path cfg) self1)
      in if file_updated self1 \<or> force then
           (case validate_data cfg yaml_data
                   ((emit (SelectModel (model cfg)) self2)
                      \<lparr>items := remdups (tbl_model (pending (db_session self1)))\<rparr>) of
              (Raise err, self3) \<Rightarrow> (Raise err, self3)
            | (Return validated_data, self3) \<Rightarrow>
                (Return (),
                 emit (Print ''DONE'')
                   (commit_changes e (process_data cfg (items self3) validated_data self3))))
         else (Return (), emit (Print ''DONE'') self2))"
proof -
  define self0 where "self0 = emit (Print (''Importing weights for '' @ model cfg @ ''...'')) self"
  obtain self1 where h: "handle_file_metadata cfg e (file_path cfg) force self0 = (Return (), self1)"
    using hfm_fst[OF assms] by (metis prod.collapse)
  obtain d self2 where r: "read_yaml e (file_path cfg) self1 = (d, self2)"
    by (cases "read_yaml e (file_path cfg) self1")
  have fu: "file_updated self2 = file_updated self1"
    using read_yaml_snd(1)[of e "file_path cfg" self1] r by simp
  have pe: "pending (db_session self2) = pending (db_session self1)"
    using read_yaml_snd(3)[of e "file_path cfg" self1] r by simp
  show ?thesis
    unfolding import_data_def load_yaml_data_def Let_def self0_def[symmetric] h r
      prod.case outcome.case fst_conv snd_conv fu pe
    by (rule refl)
qed

lemma WeightImporter_simps:
  "file_updated (WeightImporter s) = False"
  "db_session (WeightImporter s) = s"
  "items (WeightImporter s) = []"
  by (simp_all add: WeightImporter_def)

text \<open>The importer after reconciling and reading, on a fresh importer.\<close>

lemma fresh_file_updated:
  assumes "get_file_hash e (file_path cfg) = Some h"
  shows "file_updated (snd (handle_file_metadata cfg e (file_path cfg) force
            (emit (banner cfg) (WeightImporter s)))) = (changed cfg e s \<or> force)"
  using assms
  by (auto simp add: hfm_file_updated emit_simps WeightImporter_simps split: option.splits)

lemma import_data_trace:
  assumes "get_file_hash e (file_path cfg) = Some h"
  shows "trace (db_session (snd (import_data cfg e force (WeightImporter s)))) =
     trace s @ banner cfg # reconcile_events cfg e s @ load_events cfg e @
     (if changed cfg e s \<or> force then
        SelectModel (model cfg) #
        (case schema cfg of
           None \<Rightarrow> []
         | Some model_validate \<Rightarrow>
             (case model_validate (loaded cfg e) of
                None \<Rightarrow> [Print ''Validation error: '']
              | Some validated_data \<Rightarrow>
                  Update (update_class cfg)
                    (mappings_of cfg (remdups (tbl_model (pending s))) validated_data) #
                  commit_events e @ [Print ''DONE'']))
      else [Print ''DONE''])"
proof -
  define self0 where "self0 = emit (banner cfg) (WeightImporter s)"
  define H where "H = snd (handle_file_metadata cfg e (file_path cfg) force self0)"
  define R where "R = snd (read_yaml e (file_path cfg) H)"
  define S3 where "S3 = (emit (SelectModel (model cfg)) R)
                      \<lparr>items := remdups (tbl_model (pending (db_session H)))\<rparr>"
  have fu: "file_updated H = (changed cfg e s \<or> force)"
    unfolding H_def self0_def by (rule fresh_file_updated[OF assms])
  have tH: "trace (db_session H) = trace s @ banner cfg # reconcile_events cfg e s"
    unfolding H_def self0_def using assms
    by (simp add: hfm_trace emit_simps WeightImporter_simps split: option.splits)
  have tR: "trace (db_session R) = trace s @ banner cfg # reconcile_events cfg e s @ load_events cfg e"
    unfolding R_def by (simp add: read_yaml_snd tH)
  have rows: "tbl_model (pending (db_session H)) = tbl_model (pending s)"
    unfolding H_def self0_def by (simp add: hfm_rows emit_simps WeightImporter_simps)
  have tS3: "trace (db_session S3) = trace (db_session R) @ [SelectModel (model cfg)]"
    unfolding S3_def by (simp add: emit_simps)
  have iS3: "items S3 = remdups (tbl_model (pending s))"
    unfolding S3_def by (simp add: rows)
  have st: "import_data cfg e force (WeightImporter s) =
     (if file_updated H \<or> force then
           (case validate_data cfg (loaded cfg e) S3 of
              (Raise err, self3) \<Rightarrow> (Raise err, self3)
            | (Return validated_data, self3) \<Rightarrow>
                (Return (),
                 emit (Print ''DONE'')
                   (commit_changes e (process_data cfg (items self3) validated_data self3))))
         else (Return (), emit (Print ''DONE'') R))"
    unfolding import_data_staged[OF assms] Let_def self0_def[symmetric] H_def[symmetric]
      R_def[symmetric] S3_def[symmetric] read_yaml_fst
    by (rule refl)
  show ?thesis
  proof (cases "changed cfg e s \<or> force")
    case False
    then show ?thesis unfolding st fu by (simp add: emit_simps tR)
  next
    case True
    show ?thesis
    proof (cases "schema cfg")
      case None
      then show ?thesis unfolding st fu using True
        by (simp add: validate_data_def tS3 tR)
    next
      case (Some mv)
      show ?thesis
      proof (cases "mv (loaded cfg e)")
        case None
        then show ?thesis unfolding st fu using True Some
          by (simp add: validate_data_def emit_simps tS3 tR)
      next
        case (Some vd)
        then show ?thesis unfolding st fu using True \<open>schema cfg = Some mv\<close>
          by (simp add: validate_data_def emit_simps commit_changes_simps process_data_simps
              tS3 tR iS3)
      qed
    qed
  qed
qed

lemma hfm_pending:
  "pending (db_session (snd (handle_file_metadata cfg e (file_path cfg) force self))) =
     reconciled cfg e force (pending (db_session self))"
  by (simp add: handle_file_metadata_def Let_def emit_simps write_pending_simps
      split: option.splits)

lemma import_data_fresh:
  assumes "get_file_hash e (file_path cfg) = Some h"
  obtains R S3 where
     "committed (db_session R) = committed s"
     "pending (db_session R) = reconciled cfg e force (pending s)"
     "file_updated R = (changed cfg e s \<or> force)"
     "trace (db_session R) = trace s @ banner cfg # reconcile_events cfg e s @ load_events cfg e"
     "committed (db_session S3) = committed s"
     "pending (db_session S3) = reconciled cfg e force (pending s)"
     "file_updated S3 = (changed cfg e s \<or> force)"
     "items S3 = remdups (tbl_model (pending s))"
     "trace (db_session S3) = trace (db_session R) @ [SelectModel (model cfg)]"
     "import_data cfg e force (WeightImporter s) =
       (if changed cfg e s \<or> force then
          (case validate_data cfg (loaded cfg e) S3 of
              (Raise err, self3) \<Rightarrow> (Raise err, self3)
            | (Return validated_data, self3) \<Rightarrow>
                (Return (),
                 emit (Print ''DONE'')
                   (commit_changes e (process_data cfg (items self3) validated_data self3))))
        else (Return (), emit (Print ''DONE'') R))"
proof -
  define self0 where "self0 = emit (banner cfg) (WeightImporter s)"
  define H where "H = snd (handle_file_metadata cfg e (file_path cfg) force self0)"
  define R where "R = snd (read_yaml e (file_path cfg) H)"
  define S3 where "S3 = (emit (SelectModel (model cfg)) R)
                      \<lparr>items := remdups (tbl_model (pending (db_session H)))\<rparr>"
  have fu: "file_updated H = (changed cfg e s \<or> force)"
    unfolding H_def self0_def by (rule fresh_file_updated[OF assms])
  have cH: "committed (db_session H) = committed s"
    unfolding H_def self0_def by (simp add: hfm_committed emit_simps WeightImporter_simps)
  have pH: "pending (db_session H) = reconciled cfg e force (pending s)"
    unfolding H_def self0_def by (simp only: hfm_pending emit_simps WeightImporter_simps)
  have rows: "tbl_model (pending (db_session H)) = tbl_model (pending s)"
    unfolding H_def self0_def by (simp add: hfm_rows emit_simps WeightImporter_simps)
  have tH: "trace (db_session H) = trace s @ banner cfg # reconcile_events cfg e s"
    unfolding H_def self0_def using assms
    by (simp add: hfm_trace emit_simps WeightImporter_simps split: option.splits)
  have R: "committed (db_session R) = committed s"
    "pending (db_session R) = reconciled cfg e force (pending s)"
    "file_updated R = (changed cfg e s \<or> force)"
    unfolding R_def by (simp_all only: read_yaml_snd cH pH fu)
  have tR: "trace (db_session R) = trace s @ banner cfg # reconcile_events cfg e s @ load_events cfg e"
    unfolding R_def by (simp add: read_yaml_snd tH)
  have tS3: "trace (db_session S3) = trace (db_session R) @ [SelectModel (model cfg)]"
    unfolding S3_def by (simp add: emit_simps)
  have S3: "committed (db_session S3) = committed s"
    "pending (db_session S3) = reconciled cfg e force (pending s)"
    "file_updated S3 = (changed cfg e s \<or> force)"
    "items S3 = remdups (tbl_model (pending s))"
    unfolding S3_def by (simp_all add: emit_simps R rows del: split_paired_Ex)
  have st: "import_data cfg e force (WeightImporter s) =
     (if changed cfg e s \<or> force then
           (case validate_data cfg (loaded cfg e) S3 of
              (Raise err, self3) \<Rightarrow> (Raise err, self3)
            | (Return validated_data, self3) \<Rightarrow>
                (Return (),
                 emit (Print ''DONE'')
                   (commit_changes e (process_data cfg (items self3) validated_data self3))))
         else (Return (), emit (Print ''DONE'') R))"
    unfolding import_data_staged[OF assms] Let_def self0_def[symmetric] H_def[symmetric]
      R_def[symmetric] S3_def[symmetric] read_yaml_fst fu
    by (simp only: disj_assoc disj_absorb)
  from that[OF R tR S3 tS3 st] show thesis .
qed

lemma unchanged_reconciled:
  assumes "get_file_hash e (file_path cfg) = Some h" "\<not> (changed cfg e s \<or> force)"
  shows "reconciled cfg e force (pending s) = pending s"
  using assms by (auto split: option.splits)

lemma import_data_result:
  assumes "get_file_hash e (file_path cfg) = Some h"
  shows
   "fst (import_data cfg e force (WeightImporter s)) =
     (if changed cfg e s \<or> force then
        (case schema cfg of
           None \<Rightarrow> Raise (ValueError ''Pydantic schema not defined in subclass'')
         | Some model_validate \<Rightarrow>
             (case model_validate (loaded cfg e) of
                None \<Rightarrow> Raise ValidationError
              | Some _ \<Rightarrow> Return ()))
      else Return ()) \<and>
    file_updated (snd (import_data cfg e force (WeightImporter s))) =
      (changed cfg e s \<or> force) \<and>
    committed (db_session (snd (import_data cfg e force (WeightImporter s)))) =
     (if changed cfg e s \<or> force then
        (case schema cfg of
           None \<Rightarrow> committed s
         | Some model_validate \<Rightarrow>
             (case model_validate (loaded cfg e) of
                None \<Rightarrow> committed s
              | Some validated_data \<Rightarrow>
                  (case commit_error e of
                     None \<Rightarrow> written cfg (remdups (tbl_model (pending s))) validated_data
                               (reconciled cfg e force (pending s))
                   | Some _ \<Rightarrow> committed s)))
      else committed s) \<and>
    pending (db_session (snd (import_data cfg e force (WeightImporter s)))) =
     (if changed cfg e s \<or> force then
        (case schema cfg of
           None \<Rightarrow> reconciled cfg e force (pending s)
         | Some model_validate \<Rightarrow>
             (case model_validate (loaded cfg e) of
                None \<Rightarrow> reconciled cfg e force (pending s)
              | Some validated_data \<Rightarrow>
                  (case commit_error e of
                     None \<Rightarrow> written cfg (remdups (tbl_model (pending s))) validated_data
                               (reconciled cfg e force (pending s))
                   | Some _ \<Rightarrow> committed s)))
      else pending s)"
proof -
  obtain R S3 where
    R: "committed (db_session R) = committed s"
       "pending (db_session R) = reconciled cfg e force (pending s)"
       "file_updated R = (changed cfg e s \<or> force)"
       "trace (db_session R) = trace s @ banner cfg # reconcile_events cfg e s @ load_events cfg e"
    and S3: "committed (db_session S3) = committed s"
      "pending (db_session S3) = reconciled cfg e force (pending s)"
      "file_updated S3 = (changed cfg e s \<or> force)"
      "items S3 = remdups (tbl_model (pending s))"
      "trace (db_session S3) = trace (db_session R) @ [SelectModel (model cfg)]"
    and st: "import_data cfg e force (WeightImporter s) =
       (if changed cfg e s \<or> force then
          (case validate_data cfg (loaded cfg e) S3 of
              (Raise err, self3) \<Rightarrow> (Raise err, self3)
            | (Return validated_data, self3) \<Rightarrow>
                (Return (),
                 emit (Print ''DONE'')
                   (commit_changes e (process_data cfg (items self3) validated_data self3))))
        else (Return (), emit (Print ''DONE'') R))"
    by (rule import_data_fresh[OF assms, where force=force and s=s])
  show ?thesis
  proof (cases "changed cfg e s \<or> force")
    case False
    have "pending (db_session R) = pending s"
      unfolding R by (rule unchanged_reconciled[OF assms False])
    with False show ?thesis unfolding st by (simp add: emit_simps R(1,3))
  next
    case True
    show ?thesis
    proof (cases "schema cfg")
      case None
      then show ?thesis unfolding st using True by (simp add: validate_data_def S3(1,2,3))
    next
      case (Some mv)
      show ?thesis
      proof (cases "mv (loaded cfg e)")
        case None
        then show ?thesis unfolding st using True Some
          by (simp add: validate_data_def emit_simps S3(1,2,3))
      next
        case (Some vd)
        show ?thesis
        proof (cases "commit_error e")
          case None
          then show ?thesis unfolding st
            using True \<open>schema cfg = Some mv\<close> \<open>mv (loaded cfg e) = Some vd\<close>
            by (simp add: validate_data_def emit_simps commit_changes_simps process_data_simps
              process_data_pending S3(1,2,3,4) cong: option.case_cong)
        next
          case (Some msg)
          then show ?thesis unfolding st
            using True \<open>schema cfg = Some mv\<close> \<open>mv (loaded cfg e) = Some vd\<close>
            by (simp add: validate_data_def emit_simps commit_changes_simps process_data_simps
              S3(1,3,4))
        qed
      qed
    qed
  qed
qed

lemmas ex_defs = ex_rows_def ex_doc_def ex_cfg_def ex_db_def ex_session_def ex_env_def

lemmas run_defs = run_weight_importer_def import_data_def load_yaml_data_def read_yaml_def
  handle_file_metadata_def validate_data_def process_data_def commit_changes_def
  mappings_of_def WeightImporter_def emit_def write_pending_def weight_validator_def Let_def

lemma run_fst:
  "fst (run_weight_importer cfg e s force fcs) =
     (case fst (import_data cfg e (force \<or> list_ex (\<lambda>c. c) fcs) (WeightImporter s)) of
        Raise err \<Rightarrow> Raise err
      | Return _ \<Rightarrow>
          Return (file_updated
                   (snd (import_data cfg e (force \<or> list_ex (\<lambda>c. c) fcs) (WeightImporter s)))))"
  by (simp add: run_weight_importer_def split: prod.splits outcome.splits)

lemma run_snd:
  "snd (run_weight_importer cfg e s force fcs) =
     db_session (snd (import_data cfg e (force \<or> list_ex (\<lambda>c. c) fcs) (WeightImporter s)))"
  by (simp add: run_weight_importer_def split: prod.splits outcome.splits)

lemma mappings_of_length: "length (mappings_of cfg its vd) = length its"
  by (simp add: mappings_of_def)

lemma mappings_of_nth_weight:
  "i < length its \<Longrightarrow>
   m_weight (mappings_of cfg its vd ! i) =
     (case find (\<lambda>data. slug data = row_slug (its ! i)) vd of
        Some data \<Rightarrow> weight data | None \<Rightarrow> 0)"
  by (simp add: mappings_of_def Let_def split: option.splits)

lemma find_filter:
  "(\<And>x. P x \<Longrightarrow> Q x) \<Longrightarrow> find P (filter Q xs) = find P xs"
  by (induction xs) auto

subsection \<open>The whole import\<close>

lemma those_None: "None \<in> set ys \<Longrightarrow> those ys = None"
  by (induction ys) (auto split: option.splits)

lemma SlugWeights_negative:
  assumes "YMap kvs \<in> set xs" "map_of kvs ''weight'' = Some w"
      "int_validator lax w = Some n" "n < 0"
  shows "SlugWeights lax (YSeq xs) = None"
proof -
  have "SlugWeight_validate lax (YMap kvs) = None"
    using assms(2-4) by (simp add: weight_validator_def split: option.splits)
  then have "None \<in> set (map (SlugWeight_validate lax) xs)"
    using assms(1) by (metis image_eqI list.set_map)
  then show ?thesis by (simp add: those_None)
qed

lemma run_raise:
  assumes "get_file_hash e (file_path cfg) = None"
  shows "run_weight_importer cfg e s force fcs =
     (Raise FileHashError,
      s\<lparr>trace := trace s @ [banner cfg, SelectFileMetadata (file_path cfg),
                              GetFileHash (file_path cfg)]\<rparr>)"
  by (simp add: run_weight_importer_def import_data_raise[OF assms] emit_def WeightImporter_def)

lemmas import_data_outcome = import_data_result[THEN conjunct1]

lemmas import_data_file_updated = import_data_result[THEN conjunct2, THEN conjunct1]

lemmas import_data_committed = import_data_result[THEN conjunct2, THEN conjunct2, THEN conjunct1]

lemmas import_data_pending = import_data_result[THEN conjunct2, THEN conjunct2, THEN conjunct2]





lemma find_Some_holds: "find P xs = Some x \<Longrightarrow> P x"
  by (induction xs) (auto split: if_splits)

lemma map_filename_update_first:
  "filename y = p \<Longrightarrow>
   map filename (update_first (\<lambda>m. filename m = p) (\<lambda>_. y) xs) = map filename xs"
  by (induction xs) auto



lemma hfm_existing_tables:
  assumes "find (\<lambda>m. filename m = path) (tbl_file_metadata (pending (db_session self))) = Some md"
  shows "map filename (tbl_file_metadata (pending (db_session
            (snd (handle_file_metadata cfg e path force self))))) =
           map filename (tbl_file_metadata (pending (db_session self)))"
    and "tbl_yaml_file (pending (db_session (snd (handle_file_metadata cfg e path force self)))) =
           tbl_yaml_file (pending (db_session self))"
    and "trace (db_session (snd (handle_file_metadata cfg e path force self))) =
           trace (db_session self) @ [SelectFileMetadata path, GetFileHash path]"
proof -
  have fn: "filename md = path"
    using assms by (auto dest: find_Some_holds)
  show "map filename (tbl_file_metadata (pending (db_session
            (snd (handle_file_metadata cfg e path force self))))) =
           map filename (tbl_file_metadata (pending (db_session self)))"
  proof (cases "get_file_hash e path")
    case None
    then show ?thesis by (simp add: hfm_raise emit_simps)
  next
    case (Some h)
    show ?thesis
      by (simp add: hfm_tbl_file_metadata[OF Some] assms map_filename_update_first fn)
  qed
  show "tbl_yaml_file (pending (db_session (snd (handle_file_metadata cfg e path force self)))) =
           tbl_yaml_file (pending (db_session self))"
  proof (cases "get_file_hash e path")
    case None
    then show ?thesis by (simp add: hfm_raise emit_simps)
  next
    case (Some h)
    show ?thesis by (simp add: hfm_tbl_yaml_file[OF Some] assms)
  qed
  show "trace (db_session (snd (handle_file_metadata cfg e path force self))) =
           trace (db_session self) @ [SelectFileMetadata path, GetFileHash path]"
  proof (cases "get_file_hash e path")
    case None
    then show ?thesis by (simp add: hfm_raise emit_simps)
  next
    case (Some h)
    show ?thesis by (simp add: hfm_trace[OF Some] assms)
  qed
qed

lemma hfm_new_file_metadata:
  assumes "find (\<lambda>m. filename m = path) (tbl_file_metadata (pending (db_session self))) = None"
      and "get_file_hash e path = Some h"
  shows "file_metadata (snd (handle_file_metadata cfg e path force self)) =
           Some \<lparr>filename = path, hash = h, last_modified = now e\<rparr>"
  using assms by (simp add: handle_file_metadata_def Let_def emit_simps)

section \<open>The claims\<close>

subsection \<open>The weight applier\<close>

text \<open>
  C1. \<open>process_data\<close> issues one update whose parameter sets are \<open>mappings_of\<close>. The
  set built for the \<open>i\<close>-th row carries the weight of the first validated entry, in
  input order, whose slug is the row's slug (entry \<open>j\<close>, with no entry before it of that
  slug), and 0 when no validated entry has the row's slug. In particular, for the input
  \<open>[{slug: a, weight: 5}, {slug: b, weight: 3}]\<close> and the rows \<open>a\<close>, \<open>b\<close>, \<open>c\<close> the
  weights are 5, 3 and 0, and a whole import of that document into a store holding these
  rows leaves them with these weights.
\<close>

theorem weight_of_first_matching_entry:
  "trace (db_session (process_data cfg its validated_data self)) =
     trace (db_session self) @
       [Update (update_class cfg) (mappings_of cfg its validated_data)] \<and>
   length (mappings_of cfg its validated_data) = length its \<and>
   (\<forall>i<length its.
      (\<exists>j<length validated_data.
          slug (validated_data ! j) = row_slug (its ! i) \<and>
          (\<forall>k<j. slug (validated_data ! k) \<noteq> row_slug (its ! i)) \<and>
          m_weight (mappings_of cfg its validated_data ! i) = weight (validated_data ! j)) \<or>
      ((\<forall>d\<in>set validated_data. slug d \<noteq> row_slug (its ! i)) \<and>
       m_weight (mappings_of cfg its validated_data ! i) = 0)) \<and>
   map m_weight
     (mappings_of ex_cfg ex_rows [\<lparr>slug = ''a'', weight = 5\<rparr>, \<lparr>slug = ''b'', weight = 3\<rparr>]) =
     [5, 3, 0] \<and>
   map (\<lambda>r. (row_slug r, row_weight r))
     (tbl_model (committed (snd (run_weight_importer ex_cfg ex_env ex_session False [])))) =
     [(''a'', 5), (''b'', 3), (''c'', 0)]"
proof (intro conjI allI impI)
  show "trace (db_session (process_data cfg its validated_data self)) =
     trace (db_session self) @
       [Update (update_class cfg) (mappings_of cfg its validated_data)]"
    by (simp add: process_data_simps)
next
  show "length (mappings_of cfg its validated_data) = length its"
    by (rule mappings_of_length)
next
  fix i assume i: "i < length its"
  let ?P = "\<lambda>data. slug data = row_slug (its ! i)"
  show "(\<exists>j<length validated_data.
          slug (validated_data ! j) = row_slug (its ! i) \<and>
          (\<forall>k<j. slug (validated_data ! k) \<noteq> row_slug (its ! i)) \<and>
          m_weight (mappings_of cfg its validated_data ! i) = weight (validated_data ! j)) \<or>
      ((\<forall>d\<in>set validated_data. slug d \<noteq> row_slug (its ! i)) \<and>
       m_weight (mappings_of cfg its validated_data ! i) = 0)"
  proof (cases "find ?P validated_data")
    case None
    then have "\<forall>d\<in>set validated_data. slug d \<noteq> row_slug (its ! i)"
      by (simp add: find_None_iff)
    moreover have "m_weight (mappings_of cfg its validated_data ! i) = 0"
      using i None by (simp add: mappings_of_nth_weight)
    ultimately show ?thesis by blast
  next
    case (Some d)
    then obtain j where j: "j < length validated_data" "?P (validated_data ! j)"
        "d = validated_data ! j" "\<forall>k<j. \<not> ?P (validated_data ! k)"
      by (auto simp: find_Some_iff)
    moreover have "m_weight (mappings_of cfg its validated_data ! i) = weight (validated_data ! j)"
      using i Some j(3) by (simp add: mappings_of_nth_weight)
    ultimately show ?thesis by blast
  qed
next
  show "map m_weight
     (mappings_of ex_cfg ex_rows [\<lparr>slug = ''a'', weight = 5\<rparr>, \<lparr>slug = ''b'', weight = 3\<rparr>]) =
     [5, 3, 0]"
    by (simp add: ex_defs mappings_of_def)
next
  show "map (\<lambda>r. (row_slug r, row_weight r))
     (tbl_model (committed (snd (run_weight_importer ex_cfg ex_env ex_session False [])))) =
     [(''a'', 5), (''b'', 3), (''c'', 0)]"
    by (simp add: ex_defs run_defs)
qed

theorem weight_of_first_matching_entry_witness:
  "length (mappings_of ex_cfg ex_rows
             [\<lparr>slug = ''b'', weight = 3\<rparr>, \<lparr>slug = ''a'', weight = 5\<rparr>, \<lparr>slug = ''b'', weight = 8\<rparr>]) = 3 \<and>
   m_weight (mappings_of ex_cfg ex_rows
             [\<lparr>slug = ''b'', weight = 3\<rparr>, \<lparr>slug = ''a'', weight = 5\<rparr>, \<lparr>slug = ''b'', weight = 8\<rparr>] ! 1) = 3 \<and>
   m_weight (mappings_of ex_cfg ex_rows
             [\<lparr>slug = ''b'', weight = 3\<rparr>, \<lparr>slug = ''a'', weight = 5\<rparr>, \<lparr>slug = ''b'', weight = 8\<rparr>] ! 2) = 0"
  using weight_of_first_matching_entry
    [of ex_cfg ex_rows
        "[\<lparr>slug = ''b'', weight = 3\<rparr>, \<lparr>slug = ''a'', weight = 5\<rparr>, \<lparr>slug = ''b'', weight = 8\<rparr>]"
        "WeightImporter ex_session"]
  by (simp add: ex_defs mappings_of_def)

text \<open>
  C10. \<open>process_data\<close> builds exactly one parameter set per existing row, in row order,
  keyed by the row's id (or by its parent id when the importer has a parent model), and
  issues them in one update. Validated entries whose slug is the slug of no row contribute
  nothing: leaving them out changes neither the parameter sets nor anything else that
  \<open>process_data\<close> does to the importer and its session.
\<close>

theorem one_mapping_per_item:
  "length (mappings_of cfg its validated_data) = length its \<and>
   map m_id (mappings_of cfg its validated_data) =
     map (\<lambda>item. case parent_model cfg of Some _ \<Rightarrow> row_parent_id item | None \<Rightarrow> row_id item) its \<and>
   trace (db_session (process_data cfg its validated_data self)) =
     trace (db_session self) @
       [Update (update_class cfg) (mappings_of cfg its validated_data)] \<and>
   mappings_of cfg its (filter (\<lambda>data. slug data \<in> row_slug ` set its) validated_data) =
     mappings_of cfg its validated_data \<and>
   process_data cfg its (filter (\<lambda>data. slug data \<in> row_slug ` set its) validated_data) self =
     process_data cfg its validated_data self"
proof -
  have m: "mappings_of cfg its (filter (\<lambda>data. slug data \<in> row_slug ` set its) validated_data) =
     mappings_of cfg its validated_data"
    unfolding mappings_of_def
    by (rule map_cong[OF refl]) (simp add: find_filter)
  have i: "map m_id (mappings_of cfg its validated_data) =
     map (\<lambda>item. case parent_model cfg of Some _ \<Rightarrow> row_parent_id item | None \<Rightarrow> row_id item) its"
    by (simp add: mappings_of_def Let_def split: option.splits)
  have p: "process_data cfg its (filter (\<lambda>data. slug data \<in> row_slug ` set its) validated_data) self =
     process_data cfg its validated_data self"
    by (simp add: process_data_def m)
  show ?thesis
    by (simp add: mappings_of_length process_data_simps i m p)
qed

theorem one_mapping_per_item_witness:
  "mappings_of ex_cfg ex_rows
     [\<lparr>slug = ''zzz'', weight = 4\<rparr>, \<lparr>slug = ''b'', weight = 3\<rparr>] =
   [\<lparr>m_id = 1, m_weight = 0\<rparr>, \<lparr>m_id = 2, m_weight = 3\<rparr>, \<lparr>m_id = 3, m_weight = 0\<rparr>] \<and>
   mappings_of ex_cfg ex_rows [\<lparr>slug = ''b'', weight = 3\<rparr>] =
   [\<lparr>m_id = 1, m_weight = 0\<rparr>, \<lparr>m_id = 2, m_weight = 3\<rparr>, \<lparr>m_id = 3, m_weight = 0\<rparr>]"
  using one_mapping_per_item
    [of ex_cfg ex_rows "[\<lparr>slug = ''zzz'', weight = 4\<rparr>, \<lparr>slug = ''b'', weight = 3\<rparr>]"
        "WeightImporter ex_session"]
  by (simp add: ex_defs mappings_of_def)

subsection \<open>Validation\<close>

text \<open>
  C5. An input that contains an entry with a negative weight fails validation. Let the
  schema be \<open>SlugWeights\<close> and let some entry of the sequence be a mapping whose
  \<open>weight\<close> the \<open>int\<close> validator turns into an \<open>n < 0\<close> (for \<open>weight: -1\<close> that is the
  integer itself). Then \<open>validate_data\<close> prints its diagnostic and raises
  \<open>ValidationError\<close>. When this sequence is what the file holds, a run raises that error
  as soon as it gets to validating (the file can be hashed, and it changed or the import
  is forced); nothing catches it. Whatever way the run takes, its events hold neither an
  update nor a commit, the committed store is what it was, and the rows of the model
  table and of the parent table are unmodified in the transaction.
\<close>

theorem negative_weight_fails_validation:
  assumes "schema cfg = Some (SlugWeights lax)"
      and "YMap kvs \<in> set xs"
      and "map_of kvs ''weight'' = Some w"
      and "int_validator lax w = Some n"
      and "n < 0"
  shows "validate_data cfg (YSeq xs) self =
           (Raise ValidationError, emit (Print ''Validation error: '') self) \<and>
         (safe_load e (file_path cfg) = Inr (YSeq xs) \<longrightarrow>
            fst (run_weight_importer cfg e s force force_conditions) =
              (case get_file_hash e (file_path cfg) of
                 None \<Rightarrow> Raise FileHashError
               | Some _ \<Rightarrow>
                   if changed cfg e s \<or> force \<or> list_ex (\<lambda>c. c) force_conditions
                   then Raise ValidationError else Return False) \<and>
            trace (snd (run_weight_importer cfg e s force force_conditions)) =
              trace s @ banner cfg # reconcile_events cfg e s @
              (case get_file_hash e (file_path cfg) of
                 None \<Rightarrow> []
               | Some _ \<Rightarrow>
                   load_events cfg e @
                   (if changed cfg e s \<or> force \<or> list_ex (\<lambda>c. c) force_conditions
                    then [SelectModel (model cfg), Print ''Validation error: '']
                    else [Print ''DONE''])) \<and>
            committed (snd (run_weight_importer cfg e s force force_conditions)) = committed s \<and>
            tbl_model (pending (snd (run_weight_importer cfg e s force force_conditions))) =
              tbl_model (pending s) \<and>
            tbl_parent_model (pending (snd (run_weight_importer cfg e s force force_conditions))) =
              tbl_parent_model (pending s))"
proof (intro conjI impI)
  have v: "those (map (SlugWeight_validate lax) xs) = None"
    using SlugWeights_negative[OF assms(2-5)] by simp
  show "validate_data cfg (YSeq xs) self =
           (Raise ValidationError, emit (Print ''Validation error: '') self)"
    by (simp add: validate_data_def assms(1) v)
  assume load: "safe_load e (file_path cfg) = Inr (YSeq xs)"
  let ?F = "force \<or> list_ex (\<lambda>c. c) force_conditions"
  show "fst (run_weight_importer cfg e s force force_conditions) =
              (case get_file_hash e (file_path cfg) of
                 None \<Rightarrow> Raise FileHashError
               | Some _ \<Rightarrow>
                   if changed cfg e s \<or> force \<or> list_ex (\<lambda>c. c) force_conditions
                   then Raise ValidationError else Return False)"
  proof (cases "get_file_hash e (file_path cfg)")
    case None
    then show ?thesis by (simp add: run_raise)
  next
    case (Some h)
    show ?thesis
      by (simp add: run_fst import_data_outcome[OF Some] import_data_file_updated[OF Some]
          Some assms(1) load v)
  qed
  show "trace (snd (run_weight_importer cfg e s force force_conditions)) =
              trace s @ banner cfg # reconcile_events cfg e s @
              (case get_file_hash e (file_path cfg) of
                 None \<Rightarrow> []
               | Some _ \<Rightarrow>
                   load_events cfg e @
                   (if changed cfg e s \<or> force \<or> list_ex (\<lambda>c. c) force_conditions
                    then [SelectModel (model cfg), Print ''Validation error: '']
                    else [Print ''DONE'']))"
  proof (cases "get_file_hash e (file_path cfg)")
    case None
    then show ?thesis by (simp add: run_raise split: option.splits)
  next
    case (Some h)
    show ?thesis
      by (simp add: run_snd import_data_trace[OF Some] Some assms(1) load v)
  qed
  show "committed (snd (run_weight_importer cfg e s force force_conditions)) = committed s"
  proof (cases "get_file_hash e (file_path cfg)")
    case None
    then show ?thesis by (simp add: run_raise)
  next
    case (Some h)
    show ?thesis
      by (simp add: run_snd import_data_committed[OF Some] Some assms(1) load v)
  qed
  show "tbl_model (pending (snd (run_weight_importer cfg e s force force_conditions))) =
              tbl_model (pending s)"
  proof (cases "get_file_hash e (file_path cfg)")
    case None
    then show ?thesis by (simp add: run_raise)
  next
    case (Some h)
    show ?thesis
      by (simp add: run_snd import_data_pending[OF Some] Some assms(1) load v
          split: option.splits)
  qed
  show "tbl_parent_model (pending (snd (run_weight_importer cfg e s force force_conditions))) =
              tbl_parent_model (pending s)"
  proof (cases "get_file_hash e (file_path cfg)")
    case None
    then show ?thesis by (simp add: run_raise)
  next
    case (Some h)
    show ?thesis
      by (simp add: run_snd import_data_pending[OF Some] Some assms(1) load v
          split: option.splits)
  qed
qed

theorem negative_weight_fails_validation_witness:
  "fst (run_weight_importer ex_cfg
          (ex_env\<lparr>safe_load := \<lambda>_. Inr (YSeq [YMap [(''slug'', YStr ''a''), (''weight'', YInt (- 1))]])\<rparr>)
          ex_session False []) = Raise ValidationError \<and>
   trace (snd (run_weight_importer ex_cfg
          (ex_env\<lparr>safe_load := \<lambda>_. Inr (YSeq [YMap [(''slug'', YStr ''a''), (''weight'', YInt (- 1))]])\<rparr>)
          ex_session False [])) =
     [Print ''Importing weights for Item...'', SelectFileMetadata ''weights.yaml'',
      GetFileHash ''weights.yaml'',
      AddFileMetadata \<lparr>filename = ''weights.yaml'', hash = ''h1'', last_modified = 7\<rparr>,
      AddYAMLFile \<lparr>yf_class = ''WeightFile'', yf_file_metadata = ''weights.yaml'',
                   yf_content_type = ''weights''\<rparr>,
      Flush, Open ''weights.yaml'', SelectModel ''Item'', Print ''Validation error: ''] \<and>
   committed (snd (run_weight_importer ex_cfg
          (ex_env\<lparr>safe_load := \<lambda>_. Inr (YSeq [YMap [(''slug'', YStr ''a''), (''weight'', YInt (- 1))]])\<rparr>)
          ex_session False [])) = ex_db \<and>
   tbl_model (pending (snd (run_weight_importer ex_cfg
          (ex_env\<lparr>safe_load := \<lambda>_. Inr (YSeq [YMap [(''slug'', YStr ''a''), (''weight'', YInt (- 1))]])\<rparr>)
          ex_session False []))) = ex_rows"
proof -
  have 1: "schema ex_cfg = Some (SlugWeights (\<lambda>_. None))"
    by (simp add: ex_cfg_def)
  have 2: "YMap [(''slug'', YStr ''a''), (''weight'', YInt (- 1))] \<in>
             set [YMap [(''slug'', YStr ''a''), (''weight'', YInt (- 1))]]"
    by simp
  have 3: "map_of [(''slug'', YStr ''a''), (''weight'', YInt (- 1))] ''weight'' = Some (YInt (- 1))"
    by simp
  have 4: "int_validator (\<lambda>_. None) (YInt (- 1)) = Some (- 1)"
    by simp
  have 5: "(- 1 :: int) < 0"
    by simp
  show ?thesis
    using negative_weight_fails_validation[OF 1 2 3 4 5,
        of "WeightImporter ex_session"
           "ex_env\<lparr>safe_load := \<lambda>_. Inr (YSeq [YMap [(''slug'', YStr ''a''), (''weight'', YInt (- 1))]])\<rparr>"
           ex_session False "[]"]
    by (simp add: ex_defs)
qed

subsection \<open>Loading\<close>



subsection \<open>File metadata\<close>

text \<open>
  C4. When the session holds no \<open>FileMetadata\<close> for the path and the file can be hashed,
  \<open>handle_file_metadata\<close> returns with \<open>file_updated\<close> set, having added exactly one
  \<open>FileMetadata\<close> (the path, the current hash, the current time) and exactly one
  \<open>YAMLFile\<close> that belongs to it and carries the importer's content type. No other step
  creates or deletes such records: with a record for the path, \<open>handle_file_metadata\<close>
  adds nothing and keeps the tracked file names and the \<open>YAMLFile\<close> table as they are;
  \<open>read_yaml\<close> and \<open>validate_data\<close> do not touch the store; \<open>process_data\<close> does not
  touch the two tables; \<open>commit_changes\<close> adds and removes no record of its own, it makes
  the store of the transaction the committed one or, when the commit fails, drops the
  transaction as a whole.
\<close>

theorem first_reconcile_creates_records:
  "(existing cfg (db_session self) = None \<and> get_file_hash e (file_path cfg) = Some h \<longrightarrow>
      fst (handle_file_metadata cfg e (file_path cfg) force self) = Return () \<and>
      file_updated (snd (handle_file_metadata cfg e (file_path cfg) force self)) \<and>
      file_metadata (snd (handle_file_metadata cfg e (file_path cfg) force self)) =
        Some \<lparr>filename = file_path cfg, hash = h, last_modified = now e\<rparr> \<and>
      tbl_file_metadata (pending (db_session
          (snd (handle_file_metadata cfg e (file_path cfg) force self)))) =
        tbl_file_metadata (pending (db_session self)) @
          [\<lparr>filename = file_path cfg, hash = h, last_modified = now e\<rparr>] \<and>
      tbl_yaml_file (pending (db_session
          (snd (handle_file_metadata cfg e (file_path cfg) force self)))) =
        tbl_yaml_file (pending (db_session self)) @
          [\<lparr>yf_class = file_model cfg, yf_file_metadata = file_path cfg,
            yf_content_type = content_type cfg\<rparr>] \<and>
      trace (db_session (snd (handle_file_metadata cfg e (file_path cfg) force self))) =
        trace (db_session self) @
          [SelectFileMetadata (file_path cfg), GetFileHash (file_path cfg),
           AddFileMetadata \<lparr>filename = file_path cfg, hash = h, last_modified = now e\<rparr>,
           AddYAMLFile \<lparr>yf_class = file_model cfg, yf_file_metadata = file_path cfg,
                        yf_content_type = content_type cfg\<rparr>,
           Flush]) \<and>
   (existing cfg (db_session self) = Some md \<longrightarrow>
      map filename (tbl_file_metadata (pending (db_session
          (snd (handle_file_metadata cfg e (file_path cfg) force self))))) =
        map filename (tbl_file_metadata (pending (db_session self))) \<and>
      tbl_yaml_file (pending (db_session
          (snd (handle_file_metadata cfg e (file_path cfg) force self)))) =
        tbl_yaml_file (pending (db_session self)) \<and>
      trace (db_session (snd (handle_file_metadata cfg e (file_path cfg) force self))) =
        trace (db_session self) @
          [SelectFileMetadata (file_path cfg), GetFileHash (file_path cfg)]) \<and>
   committed (db_session (snd (handle_file_metadata cfg e (file_path cfg) force self))) =
     committed (db_session self) \<and>
   pending (db_session (snd (read_yaml e (file_path cfg) self))) = pending (db_session self) \<and>
   committed (db_session (snd (read_yaml e (file_path cfg) self))) = committed (db_session self) \<and>
   pending (db_session (snd (validate_data cfg data self))) = pending (db_session self) \<and>
   committed (db_session (snd (validate_data cfg data self))) = committed (db_session self) \<and>
   tbl_file_metadata (pending (db_session (process_data cfg its validated_data self))) =
     tbl_file_metadata (pending (db_session self)) \<and>
   tbl_yaml_file (pending (db_session (process_data cfg its validated_data self))) =
     tbl_yaml_file (pending (db_session self)) \<and>
   committed (db_session (process_data cfg its validated_data self)) =
     committed (db_session self) \<and>
   committed (db_session (commit_changes e self)) =
     (case commit_error e of
        None \<Rightarrow> pending (db_session self)
      | Some _ \<Rightarrow> committed (db_session self)) \<and>
   pending (db_session (commit_changes e self)) =
     (case commit_error e of
        None \<Rightarrow> pending (db_session self)
      | Some _ \<Rightarrow> committed (db_session self))"
proof (intro conjI impI)
  assume a: "existing cfg (db_session self) = None \<and> get_file_hash e (file_path cfg) = Some h"
  then have n: "existing cfg (db_session self) = None"
    and h: "get_file_hash e (file_path cfg) = Some h"
    by simp_all
  show "fst (handle_file_metadata cfg e (file_path cfg) force self) = Return ()"
    by (rule hfm_fst[OF h])
  show "file_updated (snd (handle_file_metadata cfg e (file_path cfg) force self))"
    by (simp add: hfm_file_updated[OF h] n)
  show "file_metadata (snd (handle_file_metadata cfg e (file_path cfg) force self)) =
        Some \<lparr>filename = file_path cfg, hash = h, last_modified = now e\<rparr>"
    by (rule hfm_new_file_metadata[OF n h])
  show "tbl_file_metadata (pending (db_session
          (snd (handle_file_metadata cfg e (file_path cfg) force self)))) =
        tbl_file_metadata (pending (db_session self)) @
          [\<lparr>filename = file_path cfg, hash = h, last_modified = now e\<rparr>]"
    by (simp add: hfm_tbl_file_metadata[OF h] n)
  show "tbl_yaml_file (pending (db_session
          (snd (handle_file_metadata cfg e (file_path cfg) force self)))) =
        tbl_yaml_file (pending (db_session self)) @
          [\<lparr>yf_class = file_model cfg, yf_file_metadata = file_path cfg,
            yf_content_type = content_type cfg\<rparr>]"
    by (simp add: hfm_tbl_yaml_file[OF h] n)
  show "trace (db_session (snd (handle_file_metadata cfg e (file_path cfg) force self))) =
        trace (db_session self) @
          [SelectFileMetadata (file_path cfg), GetFileHash (file_path cfg),
           AddFileMetadata \<lparr>filename = file_path cfg, hash = h, last_modified = now e\<rparr>,
           AddYAMLFile \<lparr>yf_class = file_model cfg, yf_file_metadata = file_path cfg,
                        yf_content_type = content_type cfg\<rparr>,
           Flush]"
    by (simp add: hfm_trace[OF h] n)
next
  assume s: "existing cfg (db_session self) = Some md"
  show "map filename (tbl_file_metadata (pending (db_session
          (snd (handle_file_metadata cfg e (file_path cfg) force self))))) =
        map filename (tbl_file_metadata (pending (db_session self)))"
    "tbl_yaml_file (pending (db_session
          (snd (handle_file_metadata cfg e (file_path cfg) force self)))) =
        tbl_yaml_file (pending (db_session self))"
    "trace (db_session (snd (handle_file_metadata cfg e (file_path cfg) force self))) =
        trace (db_session self) @
          [SelectFileMetadata (file_path cfg), GetFileHash (file_path cfg)]"
    by (rule hfm_existing_tables[OF s])+
next
  show "committed (db_session (snd (handle_file_metadata cfg e (file_path cfg) force self))) =
     committed (db_session self)"
    by (rule hfm_committed)
  show "pending (db_session (snd (read_yaml e (file_path cfg) self))) = pending (db_session self)"
    "committed (db_session (snd (read_yaml e (file_path cfg) self))) = committed (db_session self)"
    by (simp_all add: read_yaml_snd)
  show "pending (db_session (snd (validate_data cfg data self))) = pending (db_session self)"
    "committed (db_session (snd (validate_data cfg data self))) = committed (db_session self)"
    by (simp_all add: validate_data_snd)
  show "tbl_file_metadata (pending (db_session (process_data cfg its validated_data self))) =
     tbl_file_metadata (pending (db_session self))"
    "tbl_yaml_file (pending (db_session (process_data cfg its validated_data self))) =
     tbl_yaml_file (pending (db_session self))"
    "committed (db_session (process_data cfg its validated_data self)) =
     committed (db_session self)"
    by (simp_all add: process_data_simps)
  show "committed (db_session (commit_changes e self)) =
     (case commit_error e of
        None \<Rightarrow> pending (db_session self)
      | Some _ \<Rightarrow> committed (db_session self))"
    "pending (db_session (commit_changes e self)) =
     (case commit_error e of
        None \<Rightarrow> pending (db_session self)
      | Some _ \<Rightarrow> committed (db_session self))"
    by (simp_all add: commit_changes_simps)
qed

theorem first_reconcile_creates_records_witness:
  "file_updated (snd (handle_file_metadata ex_cfg ex_env (file_path ex_cfg) False
                        (WeightImporter ex_session))) \<and>
   tbl_file_metadata (pending (db_session
       (snd (handle_file_metadata ex_cfg ex_env (file_path ex_cfg) False
               (WeightImporter ex_session))))) =
     [\<lparr>filename = ''weights.yaml'', hash = ''h1'', last_modified = 7\<rparr>] \<and>
   tbl_yaml_file (pending (db_session
       (snd (handle_file_metadata ex_cfg ex_env (file_path ex_cfg) False
               (WeightImporter ex_session))))) =
     [\<lparr>yf_class = ''WeightFile'', yf_file_metadata = ''weights.yaml'',
       yf_content_type = ''weights''\<rparr>] \<and>
   map filename (tbl_file_metadata (pending (db_session
       (snd (handle_file_metadata ex_cfg (ex_env\<lparr>get_file_hash := \<lambda>_. Some ''h2'', now := 8\<rparr>)
               (file_path ex_cfg) False (WeightImporter ex_tracked)))))) =
     [''weights.yaml''] \<and>
   tbl_yaml_file (pending (db_session
       (snd (handle_file_metadata ex_cfg (ex_env\<lparr>get_file_hash := \<lambda>_. Some ''h2'', now := 8\<rparr>)
               (file_path ex_cfg) False (WeightImporter ex_tracked))))) =
     [\<lparr>yf_class = ''WeightFile'', yf_file_metadata = ''weights.yaml'',
       yf_content_type = ''weights''\<rparr>]"
proof -
  have 1: "existing ex_cfg (db_session (WeightImporter ex_session)) = None \<and>
           get_file_hash ex_env (file_path ex_cfg) = Some ''h1''"
    by (simp add: ex_defs WeightImporter_def)
  have 2: "existing ex_cfg (db_session (WeightImporter ex_tracked)) =
             Some \<lparr>filename = ''weights.yaml'', hash = ''h1'', last_modified = 7\<rparr>"
    by (simp add: ex_defs ex_tracked_def WeightImporter_def)
  from first_reconcile_creates_records[THEN conjunct1, THEN mp, OF 1]
       first_reconcile_creates_records[THEN conjunct2, THEN conjunct1, THEN mp, OF 2]
  show ?thesis
    by (simp add: ex_defs ex_tracked_def WeightImporter_def)
qed

subsection \<open>The steps of an import\<close>










subsection \<open>Commit failure and the caller\<close>





end
